theory Spec2Isabelle
  imports Main
begin

section \<open>JavaScript values used by the blog controller\<close>

text \<open>
  The controller works on JavaScript strings. A value read from an array can also be
  \<^verbatim>\<open>undefined\<close> (\<^verbatim>\<open>pop()\<close> of an empty array, index \<^verbatim>\<open>[0]\<close> of an empty array), and
  calling \<^verbatim>\<open>.split\<close> on \<^verbatim>\<open>undefined\<close> throws a TypeError. Both are branches of the model.
\<close>

datatype js_string = Undefined | Str string

datatype error =
    ValidationError string
  | TypeError string
  | AssetStoreError string
  | StoreError string

text \<open>
  \<^verbatim>\<open>s.split(sep)\<close> for a one-character separator: the pieces of \<open>s\<close> between the
  occurrences of \<open>sep\<close>, empty pieces included; the empty string gives one empty piece.
\<close>

fun js_split :: "char \<Rightarrow> string \<Rightarrow> string list" where
  "js_split sep [] = [[]]"
| "js_split sep (c # cs) =
     (if c = sep then [] # js_split sep cs
      else (case js_split sep cs of
              [] \<Rightarrow> [[c]]
            | s # ss \<Rightarrow> (c # s) # ss))"

text \<open>\<^verbatim>\<open>a.pop()\<close>: the last element (or \<^verbatim>\<open>undefined\<close>) and the array that is left.\<close>

definition pop :: "string list \<Rightarrow> js_string \<times> string list" where
  "pop a = (case a of [] \<Rightarrow> (Undefined, []) | _ \<Rightarrow> (Str (last a), butlast a))"

text \<open>\<^verbatim>\<open>a[0]\<close>: the first element, or \<^verbatim>\<open>undefined\<close>.\<close>

definition index0 :: "string list \<Rightarrow> js_string" where
  "index0 a = (case a of [] \<Rightarrow> Undefined | x # _ \<Rightarrow> Str x)"

section \<open>The identifier codec, as written twice in the controller\<close>

text \<open>
  In \<^verbatim>\<open>update\<close> (lines 173--182):
  \<^verbatim>\<open>
  const urlParts = photoUrl.split("/");
  let publicIdWithExtension = urlParts.pop();
  let versionedPublicId = urlParts.pop();
  let publicId = publicIdWithExtension.split(".")[0];
  \<close>
  The second \<^verbatim>\<open>pop\<close> is kept: its result is never read.
\<close>

definition update_publicId :: "string \<Rightarrow> error + js_string" where
  "update_publicId photoUrl =
     (let urlParts = js_split CHR ''/'' photoUrl;
          (publicIdWithExtension, urlParts1) = pop urlParts;
          (versionedPublicId, urlParts2) = pop urlParts1
      in case publicIdWithExtension of
           Undefined \<Rightarrow> Inl (TypeError ''split of undefined'')
         | Str p \<Rightarrow> Inr (index0 (js_split CHR ''.'' p)))"

text \<open>
  In \<^verbatim>\<open>delete\<close> (lines 254--256):
  \<^verbatim>\<open>
  const urlParts = photoUrl.split("/");
  let publicIdWithExtension = urlParts.pop();
  let publicId = publicIdWithExtension.split(".")[0];
  \<close>
\<close>

definition delete_publicId :: "string \<Rightarrow> error + js_string" where
  "delete_publicId photoUrl =
     (let urlParts = js_split CHR ''/'' photoUrl;
          (publicIdWithExtension, urlParts1) = pop urlParts
      in case publicIdWithExtension of
           Undefined \<Rightarrow> Inl (TypeError ''split of undefined'')
         | Str p \<Rightarrow> Inr (index0 (js_split CHR ''.'' p)))"

section \<open>Documents, the two stores and the calls made on them\<close>

text \<open>
  A blog document, with the fields the controller reads and writes (\<^verbatim>\<open>new Blog({ title,
  author, content, photoPath })\<close>). Timestamps are not modelled. An id is the 24-digit
  hexadecimal string itself, and a document is stored under its id.
\<close>

record blog_doc =
  title :: string
  author :: string
  content :: string
  photoPath :: string

text \<open>
  Modelled from the spec: the comment document (\<^verbatim>\<open>models/comment\<close> is not among the
  sources), with a reference to the owning blog post, an author and a text. The controller
  uses its \<^verbatim>\<open>blog\<close> field only, in \<^verbatim>\<open>Comment.deleteMany({ blog: id })\<close>.
\<close>

record comment_doc =
  blog :: string
  commentAuthor :: string
  commentText :: string

text \<open>
  Every call that leaves the controller is recorded, in order: the asset store
  (\<^verbatim>\<open>cloudinary.uploader\<close>), the document store (\<^verbatim>\<open>Blog\<close>, \<^verbatim>\<open>Comment\<close>) and the console.
\<close>

datatype event =
    CloudUpload string
  | CloudDestroy js_string
  | ConsoleError string error
  | ConsoleLog string
  | DbFindOne string
  | DbSave string blog_doc
  | DbUpdateOne string string string string
  | DbDeleteOne string
  | DbDeleteMany string

record world =
  blogs :: "string \<rightharpoonup> blog_doc"
  comments :: "comment_doc list"
  calls :: "event list"

definition call :: "event \<Rightarrow> world \<Rightarrow> world" where
  "call ev w = w\<lparr>calls := calls w @ [ev]\<rparr>"

text \<open>
  What the outside answers during one request. Each operation makes each kind of call at
  most once, so one answer per kind is enough.
  \<^item> \<open>upload\<close>: the promise of \<^verbatim>\<open>cloudinary.uploader.upload(photo)\<close> rejects, or resolves
    with a response whose \<^verbatim>\<open>url\<close> is given.
  \<^item> \<open>destroy\<close>: how \<^verbatim>\<open>cloudinary.uploader.destroy\<close> reports. \<open>rejection\<close> is the error the
    returned promise rejects with (\<open>None\<close>: it resolves); \<open>cb_error\<close> is the first argument
    handed to a callback, when one is passed. The controller passes a callback in
    \<^verbatim>\<open>delete\<close> and none in \<^verbatim>\<open>update\<close>, and awaits the promise in both. The two reports
    are kept apart, so that nothing is assumed on how the library relates them.
  \<^item> the document store: each query may throw; a query that throws changes nothing.
  \<^item> \<open>new_id\<close>: the id that \<^verbatim>\<open>new Blog(...)\<close> gives the document.
\<close>

record destroy_report =
  cb_error :: "error option"
  rejection :: "error option"

record env =
  upload :: "string \<Rightarrow> error + string"
  destroy :: "js_string \<Rightarrow> destroy_report"
  findOne_fails :: "error option"
  new_id :: string
  save_fails :: "error option"
  updateOne_fails :: "error option"
  deleteOne_fails :: "error option"
  deleteMany_fails :: "error option"

subsection \<open>The calls\<close>

definition cloudinary_upload :: "env \<Rightarrow> string \<Rightarrow> world \<Rightarrow> (error + string) \<times> world" where
  "cloudinary_upload e photo' w = (upload e photo', call (CloudUpload photo') w)"

definition findOne :: "env \<Rightarrow> string \<Rightarrow> world \<Rightarrow> (error + blog_doc option) \<times> world" where
  "findOne e i w =
     (case findOne_fails e of
        Some err \<Rightarrow> (Inl err, call (DbFindOne i) w)
      | None \<Rightarrow> (Inr (blogs w i), call (DbFindOne i) w))"

text \<open>\<^verbatim>\<open>newBlog.save()\<close>: an insert; the store refuses an id that is already there.\<close>

definition save :: "env \<Rightarrow> blog_doc \<Rightarrow> world \<Rightarrow> (error + string) \<times> world" where
  "save e newBlog w =
     (let w1 = call (DbSave (new_id e) newBlog) w in
      case save_fails e of
        Some err \<Rightarrow> (Inl err, w1)
      | None \<Rightarrow>
          (case blogs w (new_id e) of
             Some _ \<Rightarrow> (Inl (StoreError ''duplicate key''), w1)
           | None \<Rightarrow> (Inr (new_id e), w1\<lparr>blogs := (blogs w1)(new_id e \<mapsto> newBlog)\<rparr>)))"

text \<open>
  \<^verbatim>\<open>Blog.updateOne({ _id: blogId }, { title, content, photoPath: newPhotoPath })\<close>: the three
  fields named in the update document are set; no other field is.
\<close>

definition updateOne ::
  "env \<Rightarrow> string \<Rightarrow> string \<Rightarrow> string \<Rightarrow> string \<Rightarrow> world \<Rightarrow> error option \<times> world" where
  "updateOne e i title' content' newPhotoPath w =
     (let w1 = call (DbUpdateOne i title' content' newPhotoPath) w in
      case updateOne_fails e of
        Some err \<Rightarrow> (Some err, w1)
      | None \<Rightarrow>
          (case blogs w i of
             None \<Rightarrow> (None, w1)
           | Some d \<Rightarrow>
               (None, w1\<lparr>blogs := (blogs w1)
                  (i \<mapsto> d\<lparr>title := title', content := content', photoPath := newPhotoPath\<rparr>)\<rparr>)))"

definition deleteOne :: "env \<Rightarrow> string \<Rightarrow> world \<Rightarrow> error option \<times> world" where
  "deleteOne e i w =
     (let w1 = call (DbDeleteOne i) w in
      case deleteOne_fails e of
        Some err \<Rightarrow> (Some err, w1)
      | None \<Rightarrow> (None, w1\<lparr>blogs := (blogs w1)(i := None)\<rparr>))"

text \<open>\<^verbatim>\<open>Comment.deleteMany({ blog: id })\<close>.\<close>

definition deleteMany :: "env \<Rightarrow> string \<Rightarrow> world \<Rightarrow> error option \<times> world" where
  "deleteMany e i w =
     (let w1 = call (DbDeleteMany i) w in
      case deleteMany_fails e of
        Some err \<Rightarrow> (Some err, w1)
      | None \<Rightarrow> (None, w1\<lparr>comments := filter (\<lambda>c. blog c \<noteq> i) (comments w1)\<rparr>))"

section \<open>Requests, validation and responses\<close>

text \<open>
  The request body: each key is absent or holds a string. Joi's \<^verbatim>\<open>string()\<close> refuses the
  empty string, \<^verbatim>\<open>required()\<close> refuses an absent key, \<^verbatim>\<open>regex(mongodbIdPattern)\<close> wants 24
  hexadecimal digits, and an object schema refuses a key it does not name. Validation stops
  at the first key that fails. The validated values come back in the order in which the
  handler destructures them.
\<close>

record req_body =
  body_title :: "string option"
  body_content :: "string option"
  body_author :: "string option"
  body_blogId :: "string option"
  body_photo :: "string option"

definition hex_digit :: "char \<Rightarrow> bool" where
  "hex_digit c = (c \<in> set ''0123456789abcdefABCDEF'')"

definition mongodbIdPattern :: "string \<Rightarrow> bool" where
  "mongodbIdPattern s = (length s = 24 \<and> list_all hex_digit s)"

definition joi_string_required :: "string \<Rightarrow> string option \<Rightarrow> error + string" where
  "joi_string_required key v =
     (case v of
        None \<Rightarrow> Inl (ValidationError key)
      | Some s \<Rightarrow> if s = [] then Inl (ValidationError key) else Inr s)"

definition joi_id_required :: "string \<Rightarrow> string option \<Rightarrow> error + string" where
  "joi_id_required key v =
     (case v of
        None \<Rightarrow> Inl (ValidationError key)
      | Some s \<Rightarrow> if mongodbIdPattern s then Inr s else Inl (ValidationError key))"

definition joi_string_optional :: "string \<Rightarrow> string option \<Rightarrow> error + string option" where
  "joi_string_optional key v =
     (case v of
        None \<Rightarrow> Inr None
      | Some s \<Rightarrow> if s = [] then Inl (ValidationError key) else Inr (Some s))"

definition createBlogSchema :: "req_body \<Rightarrow> error + (string \<times> string \<times> string \<times> string)" where
  "createBlogSchema b =
     (case joi_string_required ''title'' (body_title b) of Inl err \<Rightarrow> Inl err | Inr title' \<Rightarrow>
     (case joi_id_required ''author'' (body_author b) of Inl err \<Rightarrow> Inl err | Inr author' \<Rightarrow>
     (case joi_string_required ''content'' (body_content b) of Inl err \<Rightarrow> Inl err | Inr content' \<Rightarrow>
     (case joi_string_required ''photo'' (body_photo b) of Inl err \<Rightarrow> Inl err | Inr photo' \<Rightarrow>
     (case body_blogId b of
        Some _ \<Rightarrow> Inl (ValidationError ''blogId'')
      | None \<Rightarrow> Inr (title', author', content', photo'))))))"

definition updateBlogSchema ::
  "req_body \<Rightarrow> error + (string \<times> string \<times> string \<times> string \<times> string option)" where
  "updateBlogSchema b =
     (case joi_string_required ''title'' (body_title b) of Inl err \<Rightarrow> Inl err | Inr title' \<Rightarrow>
     (case joi_string_required ''content'' (body_content b) of Inl err \<Rightarrow> Inl err | Inr content' \<Rightarrow>
     (case joi_id_required ''author'' (body_author b) of Inl err \<Rightarrow> Inl err | Inr author' \<Rightarrow>
     (case joi_id_required ''blogId'' (body_blogId b) of Inl err \<Rightarrow> Inl err | Inr blogId \<Rightarrow>
     (case joi_string_optional ''photo'' (body_photo b) of Inl err \<Rightarrow> Inl err | Inr photo' \<Rightarrow>
        Inr (title', content', author', blogId, photo'))))))"

text \<open>
  How a handler ends: \<^verbatim>\<open>res.status(n).json(...)\<close>, \<^verbatim>\<open>next(error)\<close>, or an exception that
  no \<^verbatim>\<open>try\<close> of the handler catches.
\<close>

datatype 'd json = Message string | BlogBody 'd

datatype 'd response = Json nat "'d json" | Next error | Uncaught error

section \<open>The blog controller\<close>

text \<open>
  Each handler takes the answers of the outside, the request and the world before, and
  gives its response and the world after. Primed names are the values destructured from
  the request. The two projections (\<^verbatim>\<open>dto/blog\<close>, \<^verbatim>\<open>dto/blog-details\<close>) are not among the
  sources and are parameters; a constructor that throws is \<open>Inl\<close>.
\<close>

subsection \<open>create\<close>

definition create ::
  "(string \<Rightarrow> blog_doc \<Rightarrow> 'd) \<Rightarrow> env \<Rightarrow> req_body \<Rightarrow> world \<Rightarrow> 'd response \<times> world" where
  "create BlogDTO e b w =
     (case createBlogSchema b of
        Inl err \<Rightarrow> (Next err, w)
      | Inr (title', author', content', photo') \<Rightarrow>
          (case cloudinary_upload e photo' w of
             (Inl err, w1) \<Rightarrow> (Next err, w1)
           | (Inr url, w1) \<Rightarrow>
               (let newBlog = \<lparr>title = title', author = author', content = content',
                               photoPath = url\<rparr>
                in case save e newBlog w1 of
                     (Inl err, w2) \<Rightarrow> (Next err, w2)
                   | (Inr i, w2) \<Rightarrow> (Json 201 (BlogBody (BlogDTO i newBlog)), w2))))"

subsection \<open>getById\<close>

text \<open>
  \<open>BlogDetailsDTO\<close> stands for the constructor applied to what the query (with its author
  populated) gives: the document found, or \<^verbatim>\<open>null\<close>. It runs after the \<^verbatim>\<open>try\<close> block, so
  what it throws is caught by nothing in the handler.
\<close>

definition getById ::
  "((string \<times> blog_doc) option \<Rightarrow> error + 'd) \<Rightarrow> env \<Rightarrow> string \<Rightarrow> world
     \<Rightarrow> 'd response \<times> world" where
  "getById BlogDetailsDTO e i w =
     (if \<not> mongodbIdPattern i then (Next (ValidationError ''id''), w)
      else
        (case findOne e i w of
           (Inl err, w1) \<Rightarrow> (Next err, w1)
         | (Inr blog', w1) \<Rightarrow>
             (case BlogDetailsDTO (map_option (Pair i) blog') of
                Inl err \<Rightarrow> (Uncaught err, w1)
              | Inr blogDto \<Rightarrow> (Json 200 (BlogBody blogDto), w1))))"

subsection \<open>update\<close>

text \<open>
  Step 2 of \<^verbatim>\<open>update\<close> (lines 169--197), entered when a photo is supplied: when the stored
  document has a photo path, derive the public id and await \<^verbatim>\<open>destroy(publicId)\<close> inside a
  \<^verbatim>\<open>try\<close> whose \<^verbatim>\<open>catch\<close> logs and goes on. The derivation stands outside that \<^verbatim>\<open>try\<close>.
\<close>

definition delete_previous_photo :: "env \<Rightarrow> blog_doc \<Rightarrow> world \<Rightarrow> error + world" where
  "delete_previous_photo e blog' w =
     (if photoPath blog' = [] then Inr w
      else
        (case update_publicId (photoPath blog') of
           Inl err \<Rightarrow> Inl err
         | Inr publicId \<Rightarrow>
             (let w1 = call (CloudDestroy publicId) w in
              case rejection (destroy e publicId) of
                Some cloudinaryError \<Rightarrow>
                  Inr (call (ConsoleError ''Cloudinary old image deletion error:''
                               cloudinaryError) w1)
              | None \<Rightarrow> Inr w1)))"

text \<open>
  The block \<^verbatim>\<open>if (photo) { ... }\<close> (lines 165--208). It gives the new photo path, or ends
  the handler. An absent or empty \<^verbatim>\<open>photo\<close> is falsy.
\<close>

definition replace_photo ::
  "env \<Rightarrow> blog_doc \<Rightarrow> string option \<Rightarrow> world \<Rightarrow> ('d response + string) \<times> world" where
  "replace_photo e blog' photo' w =
     (case photo' of
        None \<Rightarrow> (Inr (photoPath blog'), w)
      | Some p \<Rightarrow>
          (if p = [] then (Inr (photoPath blog'), w)
           else
             (case delete_previous_photo e blog' w of
                Inl err \<Rightarrow> (Inl (Uncaught err), w)
              | Inr w1 \<Rightarrow>
                  (case cloudinary_upload e p w1 of
                     (Inl uploadError, w2) \<Rightarrow> (Inl (Next uploadError), w2)
                   | (Inr url, w2) \<Rightarrow> (Inr url, w2)))))"

text \<open>
  The handler: validate, look the document up (404 when there is none), run the photo
  block, then one \<^verbatim>\<open>updateOne\<close> with the title, the content and the photo path. The author
  of the request is validated and destructured, and not used after that.
\<close>

definition update :: "env \<Rightarrow> req_body \<Rightarrow> world \<Rightarrow> 'd response \<times> world" where
  "update e b w =
     (case updateBlogSchema b of
        Inl err \<Rightarrow> (Next err, w)
      | Inr (title', content', author', blogId, photo') \<Rightarrow>
          (case findOne e blogId w of
             (Inl err, w1) \<Rightarrow> (Next err, w1)
           | (Inr None, w1) \<Rightarrow> (Json 404 (Message ''Blog not found''), w1)
           | (Inr (Some blog'), w1) \<Rightarrow>
               (case replace_photo e blog' photo' w1 of
                  (Inl r, w2) \<Rightarrow> (r, w2)
                | (Inr newPhotoPath, w2) \<Rightarrow>
                    (case updateOne e blogId title' content' newPhotoPath w2 of
                       (Some dbError, w3) \<Rightarrow> (Next dbError, w3)
                     | (None, w3) \<Rightarrow> (Json 200 (Message ''blog updated!''), w3)))))"

subsection \<open>delete\<close>

text \<open>
  Step 4 of \<^verbatim>\<open>delete\<close> (lines 262--270): \<^verbatim>\<open>await cloudinary.uploader.destroy(publicId, cb)\<close>.
  The callback logs the error it is handed, if any, and then the result. The awaited
  promise is the one \<^verbatim>\<open>destroy\<close> returns: when it rejects, the \<^verbatim>\<open>await\<close> throws inside
  the handler's \<^verbatim>\<open>try\<close>.
\<close>

definition destroy_with_callback :: "env \<Rightarrow> js_string \<Rightarrow> world \<Rightarrow> error option \<times> world" where
  "destroy_with_callback e publicId w =
     (let w1 = call (CloudDestroy publicId) w;
          w2 = (case cb_error (destroy e publicId) of
                  Some err \<Rightarrow> call (ConsoleError ''Cloudinary deletion error:'' err) w1
                | None \<Rightarrow> w1);
          w3 = call (ConsoleLog ''Cloudinary result for'') w2
      in (rejection (destroy e publicId), w3))"

text \<open>
  The handler: validate the id; then, all inside one \<^verbatim>\<open>try\<close> whose \<^verbatim>\<open>catch\<close> calls
  \<^verbatim>\<open>next(error)\<close>: look the document up (404 when there is none), derive the public id,
  await \<^verbatim>\<open>destroy\<close>, delete the document, delete its comments.
\<close>

definition delete :: "env \<Rightarrow> string \<Rightarrow> world \<Rightarrow> 'd response \<times> world" where
  "delete e i w =
     (if \<not> mongodbIdPattern i then (Next (ValidationError ''id''), w)
      else
        (case findOne e i w of
           (Inl err, w1) \<Rightarrow> (Next err, w1)
         | (Inr None, w1) \<Rightarrow> (Json 404 (Message ''Blog not found''), w1)
         | (Inr (Some blogToDelete), w1) \<Rightarrow>
             (case delete_publicId (photoPath blogToDelete) of
                Inl err \<Rightarrow> (Next err, w1)
              | Inr publicId \<Rightarrow>
                  (case destroy_with_callback e publicId w1 of
                     (Some err, w2) \<Rightarrow> (Next err, w2)
                   | (None, w2) \<Rightarrow>
                       (case deleteOne e i w2 of
                          (Some err, w3) \<Rightarrow> (Next err, w3)
                        | (None, w3) \<Rightarrow>
                            (case deleteMany e i w3 of
                               (Some err, w4) \<Rightarrow> (Next err, w4)
                             | (None, w4) \<Rightarrow>
                                 (Json 200 (Message ''Blog deleted successfully!''), w4)))))))"

section \<open>A small world to run the handlers on\<close>

definition blogId0 :: string where
  "blogId0 = ''507f1f77bcf86cd799439011''"

definition blogId1 :: string where
  "blogId1 = ''507f1f77bcf86cd799439012''"

definition author0 :: string where
  "author0 = ''507f191e810c19729de860ea''"

definition author1 :: string where
  "author1 = ''507f191e810c19729de860eb''"

definition blog0 :: blog_doc where
  "blog0 = \<lparr>title = ''Hello'', author = author0, content = ''World'',
            photoPath = ''http://res.cloudinary.com/demo/image/upload/v1/old.jpg''\<rparr>"

text \<open>One post with three comments, and one comment of another post.\<close>

definition world0 :: world where
  "world0 =
     \<lparr>blogs = [blogId0 \<mapsto> blog0],
      comments =
        [\<lparr>blog = blogId0, commentAuthor = author1, commentText = ''first''\<rparr>,
         \<lparr>blog = blogId1, commentAuthor = author1, commentText = ''elsewhere''\<rparr>,
         \<lparr>blog = blogId0, commentAuthor = author0, commentText = ''second''\<rparr>,
         \<lparr>blog = blogId0, commentAuthor = author1, commentText = ''third''\<rparr>],
      calls = []\<rparr>"

text \<open>An outside where every call succeeds; the failing ones are updates of it.\<close>

definition env_ok :: env where
  "env_ok =
     \<lparr>upload = (\<lambda>p. Inr ''http://res.cloudinary.com/demo/image/upload/v2/new.png''),
      destroy = (\<lambda>p. \<lparr>cb_error = None, rejection = None\<rparr>),
      findOne_fails = None,
      new_id = blogId1,
      save_fails = None,
      updateOne_fails = None,
      deleteOne_fails = None,
      deleteMany_fails = None\<rparr>"

definition create_body0 :: req_body where
  "create_body0 =
     \<lparr>body_title = Some ''Second'', body_content = Some ''Post'', body_author = Some author1,
      body_blogId = None, body_photo = Some ''data:image/png;base64,AAAA''\<rparr>"

definition update_body0 :: req_body where
  "update_body0 =
     \<lparr>body_title = Some ''Hi'', body_content = Some ''There'', body_author = Some author1,
      body_blogId = Some blogId0, body_photo = None\<rparr>"

section \<open>Facts about splitting\<close>

lemma js_split_not_Nil: "js_split sep s \<noteq> []"
  by (induction s) (auto split: list.splits)

lemma hd_js_split: "hd (js_split sep s) = takeWhile (\<lambda>c. c \<noteq> sep) s"
proof (induction s)
  case Nil
  show ?case by simp
next
  case (Cons c cs)
  show ?case
  proof (cases "js_split sep cs")
    case Nil
    with js_split_not_Nil show ?thesis by blast
  next
    case (Cons p ps)
    with Cons.IH show ?thesis by auto
  qed
qed

lemma index0_js_split: "index0 (js_split sep s) = Str (takeWhile (\<lambda>c. c \<noteq> sep) s)"
proof (cases "js_split sep s")
  case Nil
  with js_split_not_Nil show ?thesis by blast
next
  case (Cons p ps)
  with hd_js_split [of sep s] show ?thesis by (simp add: index0_def)
qed

lemma js_split_no_sep: "sep \<notin> set s \<Longrightarrow> js_split sep s = [s]"
  by (induction s) auto

lemma js_split_append:
  "js_split sep (pre @ sep # rest) = js_split sep pre @ js_split sep rest"
proof (induction pre)
  case Nil
  show ?case by simp
next
  case (Cons c cs)
  show ?case
  proof (cases "js_split sep cs")
    case Nil
    with js_split_not_Nil show ?thesis by blast
  next
    case (Cons p ps)
    with Cons.IH show ?thesis by simp
  qed
qed

lemma last_js_split:
  assumes "pre = [] \<or> last pre = sep" and "sep \<notin> set seg"
  shows "last (js_split sep (pre @ seg)) = seg"
proof (cases "pre = []")
  case True
  with assms(2) show ?thesis by (simp add: js_split_no_sep)
next
  case False
  with assms(1) have "pre = butlast pre @ [sep]"
    by (metis append_butlast_last_id)
  then have "pre @ seg = butlast pre @ sep # seg" by (metis append_Cons append_Nil append_assoc)
  then have "js_split sep (pre @ seg) = js_split sep (butlast pre) @ js_split sep seg"
    by (simp only: js_split_append)
  with assms(2) show ?thesis by (simp add: js_split_no_sep)
qed

lemma pop_js_split:
  "pop (js_split sep s) = (Str (last (js_split sep s)), butlast (js_split sep s))"
  using js_split_not_Nil [of sep s] by (simp add: pop_def split: list.splits)

lemma delete_publicId_eq:
  "delete_publicId url =
     Inr (Str (takeWhile (\<lambda>c. c \<noteq> CHR ''.'') (last (js_split CHR ''/'' url))))"
  by (simp add: delete_publicId_def pop_js_split index0_js_split)

lemma update_publicId_eq:
  "update_publicId url =
     Inr (Str (takeWhile (\<lambda>c. c \<noteq> CHR ''.'') (last (js_split CHR ''/'' url))))"
  by (simp add: update_publicId_def pop_js_split index0_js_split split: prod.splits)

section \<open>Claims about the identifier codec\<close>

text \<open>
  C3, as amended. Write an access URL as \<open>pre @ seg\<close>, where \<open>seg\<close> holds no slash and
  \<open>pre\<close> is empty or ends with a slash, so that \<open>seg\<close> is the last path segment. Both codec
  fragments return \<open>seg\<close> cut at its first dot: everything from the first dot on is dropped,
  not only the file extension.
\<close>

theorem publicId_is_last_segment_before_first_dot:
  assumes "pre = [] \<or> last pre = CHR ''/''" and "CHR ''/'' \<notin> set seg"
  shows "delete_publicId (pre @ seg) = Inr (Str (takeWhile (\<lambda>c. c \<noteq> CHR ''.'') seg))
       \<and> update_publicId (pre @ seg) = Inr (Str (takeWhile (\<lambda>c. c \<noteq> CHR ''.'') seg))"
  using last_js_split [OF assms] by (simp add: delete_publicId_eq update_publicId_eq)

theorem publicId_is_last_segment_before_first_dot_witness:
  "last ''http://res.cloudinary.com/demo/image/upload/v1/'' = CHR ''/''
   \<and> CHR ''/'' \<notin> set ''abc.v2.jpg''
   \<and> delete_publicId (''http://res.cloudinary.com/demo/image/upload/v1/'' @ ''abc.v2.jpg'')
       = Inr (Str ''abc'')
   \<and> update_publicId (''http://res.cloudinary.com/demo/image/upload/v1/'' @ ''abc.v2.jpg'')
       = Inr (Str ''abc'')"
  using publicId_is_last_segment_before_first_dot
    [of "''http://res.cloudinary.com/demo/image/upload/v1/''" "''abc.v2.jpg''"]
  by simp

text \<open>
  C3 as stated fails on its own example: for a last segment \<^verbatim>\<open>abc.v2.jpg\<close> the code
  does not return \<^verbatim>\<open>abc.v2\<close>.
\<close>

theorem publicId_two_dots_counterexample:
  "delete_publicId ''http://res.cloudinary.com/demo/image/upload/v1/abc.v2.jpg''
     \<noteq> Inr (Str ''abc.v2'')
   \<and> update_publicId ''http://res.cloudinary.com/demo/image/upload/v1/abc.v2.jpg''
     \<noteq> Inr (Str ''abc.v2'')"
  by (simp add: delete_publicId_def update_publicId_def pop_def index0_def)

text \<open>
  C10. On every string, the fragment inlined in \<^verbatim>\<open>update\<close> and the fragment inlined in
  \<^verbatim>\<open>delete\<close> give the same result: the extra \<^verbatim>\<open>pop\<close> of \<^verbatim>\<open>update\<close> changes nothing that
  is read afterwards.
\<close>

theorem update_publicId_eq_delete_publicId:
  "update_publicId photoUrl = delete_publicId photoUrl"
  by (simp add: update_publicId_def delete_publicId_def split: prod.splits)

section \<open>Facts about validation and the example world\<close>

lemmas example_defs = blogId0_def blogId1_def author0_def author1_def blog0_def world0_def
  env_ok_def create_body0_def update_body0_def

lemmas joi_defs = joi_string_required_def joi_id_required_def joi_string_optional_def
  mongodbIdPattern_def hex_digit_def

lemmas store_defs = findOne_def save_def updateOne_def deleteOne_def deleteMany_def
  cloudinary_upload_def destroy_with_callback_def call_def Let_def

lemma updateBlogSchema_Inr:
  assumes "updateBlogSchema b = Inr (t, c, a, i, ph)"
  shows "mongodbIdPattern i" and "ph \<noteq> Some []"
  using assms
  by (auto simp: updateBlogSchema_def joi_string_required_def joi_id_required_def
        joi_string_optional_def split: sum.splits option.splits if_splits)

lemma createBlogSchema_create_body0:
  "createBlogSchema create_body0 =
     Inr (''Second'', author1, ''Post'', ''data:image/png;base64,AAAA'')"
  by (simp add: createBlogSchema_def joi_defs example_defs)

lemma updateBlogSchema_update_body0:
  "updateBlogSchema (update_body0\<lparr>body_photo := ph\<rparr>) =
     (if ph = Some [] then Inl (ValidationError ''photo'')
      else Inr (''Hi'', ''There'', author1, blogId0, ph))"
  by (simp add: updateBlogSchema_def joi_defs example_defs split: option.splits)

lemma mongodbIdPattern_blogId0: "mongodbIdPattern blogId0"
  by (simp add: joi_defs example_defs)

lemma mongodbIdPattern_blogId1: "mongodbIdPattern blogId1"
  by (simp add: joi_defs example_defs)

lemma blogId0_neq_blogId1: "blogId0 \<noteq> blogId1"
  by (simp add: example_defs)

lemma publicId_blog0:
  "update_publicId (photoPath blog0) = Inr (Str ''old'')"
  "delete_publicId (photoPath blog0) = Inr (Str ''old'')"
  by (simp_all add: blog0_def update_publicId_def delete_publicId_def pop_def index0_def)

lemma updateBlogSchema_update_body0_None:
  "updateBlogSchema update_body0 = Inr (''Hi'', ''There'', author1, blogId0, None)"
  using updateBlogSchema_update_body0 [of None] by (simp add: update_body0_def)

lemma blogs_world0: "blogs world0 blogId0 = Some blog0"
  by (simp add: world0_def)

lemma blogs_world0_absent: "blogs world0 blogId1 = None"
  using blogId0_neq_blogId1 by (simp add: world0_def)

lemma calls_world0: "calls world0 = []"
  by (simp add: world0_def)

lemma env_ok_answers:
  "findOne_fails env_ok = None" "updateOne_fails env_ok = None"
  "deleteOne_fails env_ok = None" "deleteMany_fails env_ok = None"
  by (simp_all add: env_ok_def)

section \<open>Claims about create\<close>

text \<open>
  C5. A create request that passes validation and whose upload is rejected ends with
  \<^verbatim>\<open>next(error)\<close> on the upload's error. The upload is the first and only call made: no
  document is inserted, and blogs and comments are as before.
\<close>

theorem create_upload_failure:
  assumes "createBlogSchema b = Inr (t, a, c, p)" and "upload e p = Inl err"
  shows "create BlogDTO e b w = (Next err, w\<lparr>calls := calls w @ [CloudUpload p]\<rparr>)"
  using assms by (simp add: create_def cloudinary_upload_def call_def)

theorem create_upload_failure_witness:
  "createBlogSchema create_body0
     = Inr (''Second'', author1, ''Post'', ''data:image/png;base64,AAAA'')
   \<and> upload (env_ok\<lparr>upload := \<lambda>p. Inl (AssetStoreError ''quota'')\<rparr>)
        ''data:image/png;base64,AAAA'' = Inl (AssetStoreError ''quota'')
   \<and> create (\<lambda>i d. i) (env_ok\<lparr>upload := \<lambda>p. Inl (AssetStoreError ''quota'')\<rparr>)
        create_body0 world0
     = (Next (AssetStoreError ''quota''),
        world0\<lparr>calls := [CloudUpload ''data:image/png;base64,AAAA'']\<rparr>)"
  using create_upload_failure
    [of create_body0 "''Second''" author1 "''Post''" "''data:image/png;base64,AAAA''"
        "env_ok\<lparr>upload := \<lambda>p. Inl (AssetStoreError ''quota'')\<rparr>"
        "AssetStoreError ''quota''" "\<lambda>i d. i" world0]
  by (simp add: createBlogSchema_create_body0) (simp add: world0_def)

text \<open>
  C6. A create request whose upload succeeds and whose insert fails (the store throws, or
  refuses the id) ends with \<^verbatim>\<open>next(error)\<close> on the insert's error. The calls made are the
  upload and the insert, in this order, and nothing else: no \<^verbatim>\<open>destroy\<close> follows, so the
  uploaded asset stays in the asset store.
\<close>

theorem create_insert_failure:
  assumes "createBlogSchema b = Inr (t, a, c, p)" and "upload e p = Inr url"
    and "fst (save e \<lparr>title = t, author = a, content = c, photoPath = url\<rparr>
               (call (CloudUpload p) w)) = Inl err"
  shows "create BlogDTO e b w =
    (Next err,
     w\<lparr>calls := calls w @
         [CloudUpload p,
          DbSave (new_id e) \<lparr>title = t, author = a, content = c, photoPath = url\<rparr>]\<rparr>)"
  using assms
  by (auto simp add: create_def cloudinary_upload_def save_def call_def Let_def
        split: option.splits)

theorem create_insert_failure_witness:
  "createBlogSchema create_body0
     = Inr (''Second'', author1, ''Post'', ''data:image/png;base64,AAAA'')
   \<and> upload (env_ok\<lparr>save_fails := Some (StoreError ''down'')\<rparr>)
        ''data:image/png;base64,AAAA''
     = Inr ''http://res.cloudinary.com/demo/image/upload/v2/new.png''
   \<and> fst (save (env_ok\<lparr>save_fails := Some (StoreError ''down'')\<rparr>)
          \<lparr>title = ''Second'', author = author1, content = ''Post'',
            photoPath = ''http://res.cloudinary.com/demo/image/upload/v2/new.png''\<rparr>
          (call (CloudUpload ''data:image/png;base64,AAAA'') world0))
     = Inl (StoreError ''down'')
   \<and> create (\<lambda>i d. i) (env_ok\<lparr>save_fails := Some (StoreError ''down'')\<rparr>)
        create_body0 world0
     = (Next (StoreError ''down''),
        world0\<lparr>calls :=
          [CloudUpload ''data:image/png;base64,AAAA'',
           DbSave blogId1
             \<lparr>title = ''Second'', author = author1, content = ''Post'',
               photoPath = ''http://res.cloudinary.com/demo/image/upload/v2/new.png''\<rparr>]\<rparr>)"
  using create_insert_failure
    [of create_body0 "''Second''" author1 "''Post''" "''data:image/png;base64,AAAA''"
        "env_ok\<lparr>save_fails := Some (StoreError ''down'')\<rparr>"
        "''http://res.cloudinary.com/demo/image/upload/v2/new.png''" world0
        "StoreError ''down''" "\<lambda>i d. i"]
  by (simp add: createBlogSchema_create_body0) (simp add: env_ok_def world0_def save_def call_def)

section \<open>Claims about update\<close>

text \<open>
  C1. Take an update request that passes validation and carries a photo, on a stored
  document that has a photo path (an old asset to remove). The handler first calls
  \<^verbatim>\<open>destroy\<close> on the public id derived from the stored path; when that call is rejected
  the error is logged and the handler goes on. Then it uploads the new photo. When the
  upload is rejected the handler ends with \<^verbatim>\<open>next(error)\<close> on the upload's error, no
  \<^verbatim>\<open>updateOne\<close> is made and the stored documents are as before, old photo path included.
  When the upload succeeds, one \<^verbatim>\<open>updateOne\<close> follows with the new path.
\<close>

theorem update_with_new_photo:
  assumes "updateBlogSchema b = Inr (t, c, a, i, Some p)"
    and "findOne_fails e = None" and "blogs w i = Some d" and "photoPath d \<noteq> []"
  shows "\<exists>publicId attempt.
     update_publicId (photoPath d) = Inr publicId
     \<and> attempt = calls w @ [DbFindOne i, CloudDestroy publicId]
          @ (case rejection (destroy e publicId) of
               None \<Rightarrow> []
             | Some ce \<Rightarrow> [ConsoleError ''Cloudinary old image deletion error:'' ce])
          @ [CloudUpload p]
     \<and> update e b w =
         (case upload e p of
            Inl uploadError \<Rightarrow> (Next uploadError, w\<lparr>calls := attempt\<rparr>)
          | Inr url \<Rightarrow>
              (case updateOne_fails e of
                 Some dbError \<Rightarrow>
                   (Next dbError, w\<lparr>calls := attempt @ [DbUpdateOne i t c url]\<rparr>)
               | None \<Rightarrow>
                   (Json 200 (Message ''blog updated!''),
                    w\<lparr>blogs := (blogs w)
                         (i \<mapsto> d\<lparr>title := t, content := c, photoPath := url\<rparr>),
                      calls := attempt @ [DbUpdateOne i t c url]\<rparr>)))"
proof -
  from assms(1) have p: "p \<noteq> []" using updateBlogSchema_Inr(2) by blast
  obtain publicId where pid: "update_publicId (photoPath d) = Inr publicId"
    using update_publicId_eq by blast
  show ?thesis
    using assms p pid
    by (simp add: update_def replace_photo_def delete_previous_photo_def store_defs
          split: option.splits sum.splits)
qed

theorem update_with_new_photo_witness:
  "updateBlogSchema (update_body0\<lparr>body_photo := Some ''data:image/png;base64,BBBB''\<rparr>)
     = Inr (''Hi'', ''There'', author1, blogId0, Some ''data:image/png;base64,BBBB'')
   \<and> findOne_fails
        (env_ok\<lparr>upload := \<lambda>p. Inl (AssetStoreError ''quota''),
           destroy := \<lambda>p. \<lparr>cb_error = None,
                             rejection = Some (AssetStoreError ''unreachable'')\<rparr>\<rparr>) = None
   \<and> blogs world0 blogId0 = Some blog0
   \<and> photoPath blog0 \<noteq> []
   \<and> update
        (env_ok\<lparr>upload := \<lambda>p. Inl (AssetStoreError ''quota''),
           destroy := \<lambda>p. \<lparr>cb_error = None,
                             rejection = Some (AssetStoreError ''unreachable'')\<rparr>\<rparr>)
        (update_body0\<lparr>body_photo := Some ''data:image/png;base64,BBBB''\<rparr>) world0
     = (Next (AssetStoreError ''quota'') :: unit response,
        world0\<lparr>calls :=
          [DbFindOne blogId0, CloudDestroy (Str ''old''),
           ConsoleError ''Cloudinary old image deletion error:''
             (AssetStoreError ''unreachable''),
           CloudUpload ''data:image/png;base64,BBBB'']\<rparr>)"
  using update_with_new_photo
    [of "update_body0\<lparr>body_photo := Some ''data:image/png;base64,BBBB''\<rparr>"
        "''Hi''" "''There''" author1 blogId0 "''data:image/png;base64,BBBB''"
        "env_ok\<lparr>upload := \<lambda>p. Inl (AssetStoreError ''quota''),
           destroy := \<lambda>p. \<lparr>cb_error = None,
                             rejection = Some (AssetStoreError ''unreachable'')\<rparr>\<rparr>"
        world0 blog0]
  by (simp add: updateBlogSchema_update_body0 publicId_blog0)
     (simp add: env_ok_def world0_def blog0_def)

text \<open>
  C2, as amended. Take an update request that passes validation and carries no photo, on a
  stored document, with the lookup and the replace both succeeding. The handler answers 200;
  the stored document has the supplied title and content, and its photo path and its author
  are as before. The only calls are the lookup and one \<^verbatim>\<open>updateOne\<close>.
\<close>

theorem update_without_photo:
  assumes "updateBlogSchema b = Inr (t, c, a, i, None)"
    and "findOne_fails e = None" and "blogs w i = Some d" and "updateOne_fails e = None"
  shows "update e b w =
    (Json 200 (Message ''blog updated!''),
     w\<lparr>blogs := (blogs w)(i \<mapsto> d\<lparr>title := t, content := c\<rparr>),
       calls := calls w @ [DbFindOne i, DbUpdateOne i t c (photoPath d)]\<rparr>)"
  using assms by (simp add: update_def replace_photo_def store_defs)

theorem update_without_photo_witness:
  "updateBlogSchema update_body0 = Inr (''Hi'', ''There'', author1, blogId0, None)
   \<and> findOne_fails env_ok = None
   \<and> blogs world0 blogId0 = Some blog0
   \<and> updateOne_fails env_ok = None
   \<and> update env_ok update_body0 world0
     = (Json 200 (Message ''blog updated!'') :: unit response,
        world0\<lparr>blogs := [blogId0 \<mapsto>
                   \<lparr>title = ''Hi'', author = author0, content = ''There'',
                     photoPath = ''http://res.cloudinary.com/demo/image/upload/v1/old.jpg''\<rparr>],
          calls := [DbFindOne blogId0,
                    DbUpdateOne blogId0 ''Hi'' ''There''
                      ''http://res.cloudinary.com/demo/image/upload/v1/old.jpg'']\<rparr>)"
proof -
  note run = update_without_photo
    [OF updateBlogSchema_update_body0_None env_ok_answers(1) blogs_world0 env_ok_answers(2)]
  show ?thesis
    using updateBlogSchema_update_body0_None env_ok_answers(1,2) blogs_world0 run
    by (simp add: world0_def blog0_def)
qed

text \<open>
  C2 as stated fails on the author: this update succeeds and supplies the author
  \<open>author1\<close>, and the stored document still has the author \<open>author0\<close>.
\<close>

theorem update_author_counterexample:
  "fst (update env_ok update_body0 world0)
     = (Json 200 (Message ''blog updated!'') :: unit response)
   \<and> body_author update_body0 = Some author1
   \<and> map_option author
        (blogs (snd (update env_ok update_body0 world0 :: unit response \<times> world)) blogId0)
       = Some author0
   \<and> author0 \<noteq> author1"
proof -
  have "update env_ok update_body0 world0
     = (Json 200 (Message ''blog updated!'') :: unit response,
        world0\<lparr>blogs := (blogs world0)
                  (blogId0 \<mapsto> blog0\<lparr>title := ''Hi'', content := ''There''\<rparr>),
          calls := calls world0 @ [DbFindOne blogId0,
                    DbUpdateOne blogId0 ''Hi'' ''There'' (photoPath blog0)]\<rparr>)"
    using updateBlogSchema_update_body0_None blogs_world0
    by (simp add: update_def replace_photo_def store_defs env_ok_def)
  then show ?thesis
    by (simp add: update_body0_def blog0_def author0_def author1_def)
qed

section \<open>Claims about delete\<close>

text \<open>
  When \<^verbatim>\<open>destroy\<close> hands an error to the callback and its promise resolves all the same,
  the error is logged and the deletion goes on.
\<close>

lemma delete_callback_error_only:
  assumes "mongodbIdPattern i" and "findOne_fails e = None" and "blogs w i = Some d"
    and "delete_publicId (photoPath d) = Inr publicId"
    and "cb_error (destroy e publicId) = Some ce"
    and "rejection (destroy e publicId) = None"
    and "deleteOne_fails e = None" and "deleteMany_fails e = None"
  shows "delete e i w =
    (Json 200 (Message ''Blog deleted successfully!''),
     w\<lparr>blogs := (blogs w)(i := None),
       comments := filter (\<lambda>c. blog c \<noteq> i) (comments w),
       calls := calls w @ [DbFindOne i, CloudDestroy publicId,
          ConsoleError ''Cloudinary deletion error:'' ce,
          ConsoleLog ''Cloudinary result for'', DbDeleteOne i, DbDeleteMany i]\<rparr>)"
  using assms
  by (simp add: delete_def store_defs)

text \<open>
  C4 does not hold of the code. The claim: a failure of the asset removal never prevents
  the deletion of the record and is not the outcome of the operation. The code awaits the
  promise of \<^verbatim>\<open>destroy\<close> inside the handler's \<^verbatim>\<open>try\<close>, with no \<^verbatim>\<open>try\<close> of its own around
  it (\<^verbatim>\<open>update\<close> has one). So when that promise rejects, on a valid id of a stored
  document, the handler ends with \<^verbatim>\<open>next(error)\<close> on the asset store's error; neither
  \<^verbatim>\<open>deleteOne\<close> nor \<^verbatim>\<open>deleteMany\<close> is called, and the document and its comments stay.
\<close>

theorem delete_destroy_rejection:
  assumes "mongodbIdPattern i" and "findOne_fails e = None" and "blogs w i = Some d"
    and "delete_publicId (photoPath d) = Inr publicId"
    and "rejection (destroy e publicId) = Some err"
  shows "delete e i w =
    (Next err,
     w\<lparr>calls := calls w @ [DbFindOne i, CloudDestroy publicId]
         @ (case cb_error (destroy e publicId) of
              None \<Rightarrow> []
            | Some ce \<Rightarrow> [ConsoleError ''Cloudinary deletion error:'' ce])
         @ [ConsoleLog ''Cloudinary result for'']\<rparr>)"
  using assms
  by (simp add: delete_def store_defs split: option.splits)

theorem delete_destroy_rejection_witness:
  "mongodbIdPattern blogId0
   \<and> findOne_fails
        (env_ok\<lparr>destroy := \<lambda>p. \<lparr>cb_error = Some (AssetStoreError ''unreachable''),
                                 rejection = Some (AssetStoreError ''unreachable'')\<rparr>\<rparr>) = None
   \<and> blogs world0 blogId0 = Some blog0
   \<and> delete_publicId (photoPath blog0) = Inr (Str ''old'')
   \<and> rejection
        (destroy
          (env_ok\<lparr>destroy := \<lambda>p. \<lparr>cb_error = Some (AssetStoreError ''unreachable''),
                                   rejection = Some (AssetStoreError ''unreachable'')\<rparr>\<rparr>)
          (Str ''old''))
       = Some (AssetStoreError ''unreachable'')
   \<and> delete
        (env_ok\<lparr>destroy := \<lambda>p. \<lparr>cb_error = Some (AssetStoreError ''unreachable''),
                                 rejection = Some (AssetStoreError ''unreachable'')\<rparr>\<rparr>)
        blogId0 world0
     = (Next (AssetStoreError ''unreachable'') :: unit response,
        world0\<lparr>calls :=
          [DbFindOne blogId0, CloudDestroy (Str ''old''),
           ConsoleError ''Cloudinary deletion error:'' (AssetStoreError ''unreachable''),
           ConsoleLog ''Cloudinary result for'']\<rparr>)"
proof -
  let ?e = "env_ok\<lparr>destroy := \<lambda>p. \<lparr>cb_error = Some (AssetStoreError ''unreachable''),
         rejection = Some (AssetStoreError ''unreachable'')\<rparr>\<rparr>"
  have ok: "findOne_fails ?e = None"
    "rejection (destroy ?e (Str ''old'')) = Some (AssetStoreError ''unreachable'')"
    by (simp_all add: env_ok_def)
  note run = delete_destroy_rejection
    [OF mongodbIdPattern_blogId0 ok(1) blogs_world0 publicId_blog0(2) ok(2)]
  show ?thesis
    using mongodbIdPattern_blogId0 ok blogs_world0 publicId_blog0(2) run
    by (simp add: world0_def)
qed

lemma delete_world0:
  "delete env_ok blogId0 world0 =
    (Json 200 (Message ''Blog deleted successfully!''),
     \<lparr>blogs = Map.empty,
      comments = [\<lparr>blog = blogId1, commentAuthor = author1, commentText = ''elsewhere''\<rparr>],
      calls = [DbFindOne blogId0, CloudDestroy (Str ''old''),
          ConsoleLog ''Cloudinary result for'', DbDeleteOne blogId0, DbDeleteMany blogId0]\<rparr>)"
  using mongodbIdPattern_blogId0 blogs_world0 publicId_blog0(2) blogId0_neq_blogId1
  by (simp add: delete_def store_defs env_ok_def) (simp add: world0_def)

text \<open>
  C7. Whenever \<^verbatim>\<open>delete\<close> answers 200 for an id, the world it leaves has no blog document
  under that id (a lookup gives \<^verbatim>\<open>null\<close>) and no comment whose \<^verbatim>\<open>blog\<close> field is that id.
\<close>

theorem delete_success:
  assumes "delete e i w = (Json 200 m, w')"
  shows "blogs w' i = None \<and> (\<forall>c \<in> set (comments w'). blog c \<noteq> i)"
  using assms
  by (auto simp add: delete_def store_defs
       split: option.splits if_splits sum.splits prod.splits)

theorem delete_success_witness:
  "delete env_ok blogId0 world0 =
    (Json 200 (Message ''Blog deleted successfully!'') :: unit response,
     \<lparr>blogs = Map.empty,
      comments = [\<lparr>blog = blogId1, commentAuthor = author1, commentText = ''elsewhere''\<rparr>],
      calls = [DbFindOne blogId0, CloudDestroy (Str ''old''),
          ConsoleLog ''Cloudinary result for'', DbDeleteOne blogId0, DbDeleteMany blogId0]\<rparr>)
   \<and> (Map.empty :: string \<rightharpoonup> blog_doc) blogId0 = None
   \<and> list_all (\<lambda>c. blog c \<noteq> blogId0)
        [\<lparr>blog = blogId1, commentAuthor = author1, commentText = ''elsewhere''\<rparr>]"
  using delete_success [OF delete_world0] delete_world0
  by simp

section \<open>Claims about a blog id that matches nothing\<close>

text \<open>
  C8. An update request that passes validation, and a delete request with a well-formed
  id, whose id matches no stored document (the lookup itself succeeding), answer 404
  ``Blog not found''. The lookup is the only call made: no call to the asset store, no
  write to the document store, and blogs and comments are as before. The same delete
  request made again answers 404 again, after one more lookup.
\<close>

theorem not_found_no_mutation:
  assumes "updateBlogSchema b = Inr (t, c, a, i, ph)"
    and "findOne_fails e = None" and "blogs w i = None"
    and "mongodbIdPattern j" and "findOne_fails e1 = None" and "findOne_fails e2 = None"
    and "blogs w j = None"
  shows "update e b w =
           (Json 404 (Message ''Blog not found'') :: 'd response,
            w\<lparr>calls := calls w @ [DbFindOne i]\<rparr>)
       \<and> delete e1 j w =
           (Json 404 (Message ''Blog not found'') :: 'd response,
            w\<lparr>calls := calls w @ [DbFindOne j]\<rparr>)
       \<and> delete e2 j (snd (delete e1 j w :: 'd response \<times> world)) =
           (Json 404 (Message ''Blog not found'') :: 'd response,
            w\<lparr>calls := calls w @ [DbFindOne j, DbFindOne j]\<rparr>)"
  using assms by (simp add: update_def delete_def store_defs)

theorem not_found_no_mutation_witness:
  "updateBlogSchema (update_body0\<lparr>body_blogId := Some blogId1\<rparr>)
     = Inr (''Hi'', ''There'', author1, blogId1, None)
   \<and> findOne_fails env_ok = None
   \<and> blogs world0 blogId1 = None
   \<and> mongodbIdPattern blogId1
   \<and> update env_ok (update_body0\<lparr>body_blogId := Some blogId1\<rparr>) world0 =
       (Json 404 (Message ''Blog not found'') :: unit response,
        world0\<lparr>calls := [DbFindOne blogId1]\<rparr>)
   \<and> delete env_ok blogId1 world0 =
       (Json 404 (Message ''Blog not found'') :: unit response,
        world0\<lparr>calls := [DbFindOne blogId1]\<rparr>)
   \<and> delete env_ok blogId1 (snd (delete env_ok blogId1 world0 :: unit response \<times> world)) =
       (Json 404 (Message ''Blog not found'') :: unit response,
        world0\<lparr>calls := [DbFindOne blogId1, DbFindOne blogId1]\<rparr>)"
proof -
  have v: "updateBlogSchema (update_body0\<lparr>body_blogId := Some blogId1\<rparr>)
     = Inr (''Hi'', ''There'', author1, blogId1, None)"
    by (simp add: updateBlogSchema_def joi_defs example_defs)
  note run = not_found_no_mutation
    [OF v env_ok_answers(1) blogs_world0_absent mongodbIdPattern_blogId1
        env_ok_answers(1) env_ok_answers(1) blogs_world0_absent, where ?'d = unit]
  have r: "update env_ok (update_body0\<lparr>body_blogId := Some blogId1\<rparr>) world0 =
       (Json 404 (Message ''Blog not found'') :: unit response,
        world0\<lparr>calls := [DbFindOne blogId1]\<rparr>)
   \<and> delete env_ok blogId1 world0 =
       (Json 404 (Message ''Blog not found'') :: unit response,
        world0\<lparr>calls := [DbFindOne blogId1]\<rparr>)
   \<and> delete env_ok blogId1 (snd (delete env_ok blogId1 world0 :: unit response \<times> world)) =
       (Json 404 (Message ''Blog not found'') :: unit response,
        world0\<lparr>calls := [DbFindOne blogId1, DbFindOne blogId1]\<rparr>)"
    using run by (unfold calls_world0 append_Nil) assumption
  show ?thesis
    using v env_ok_answers(1) blogs_world0_absent mongodbIdPattern_blogId1 r
    by blast
qed

section \<open>Claims about getById\<close>

text \<open>
  C9. For a well-formed id that matches no stored document (the lookup itself succeeding),
  \<^verbatim>\<open>getById\<close> hands \<^verbatim>\<open>null\<close> to the detail projection: it answers 200 with what the
  projection builds, or the projection throws and nothing in the handler catches it. On no
  input at all does \<^verbatim>\<open>getById\<close> answer 404.
\<close>

theorem getById_no_record:
  assumes "mongodbIdPattern i" and "findOne_fails e = None" and "blogs w i = None"
  shows "getById (BlogDetailsDTO :: (string \<times> blog_doc) option \<Rightarrow> error + 'd) e i w =
           (case BlogDetailsDTO None of
              Inl err \<Rightarrow> Uncaught err
            | Inr blogDto \<Rightarrow> Json 200 (BlogBody blogDto),
            w\<lparr>calls := calls w @ [DbFindOne i]\<rparr>)
       \<and> (\<forall>D e' i' w' m. fst (getById D e' i' w') \<noteq> (Json 404 m :: 'd response))"
  using assms by (auto simp add: getById_def store_defs split: sum.splits option.splits)

theorem getById_no_record_witness:
  "mongodbIdPattern blogId1
   \<and> findOne_fails env_ok = None
   \<and> blogs world0 blogId1 = None
   \<and> getById
        (\<lambda>r. case r of None \<Rightarrow> Inl (TypeError ''null'') | Some (i, d) \<Rightarrow> Inr (i, title d))
        env_ok blogId1 world0
       = (Uncaught (TypeError ''null''), world0\<lparr>calls := [DbFindOne blogId1]\<rparr>)
   \<and> getById (\<lambda>r. Inr r) env_ok blogId1 world0
       = (Json 200 (BlogBody None), world0\<lparr>calls := [DbFindOne blogId1]\<rparr>)"
proof -
  note run = getById_no_record
    [OF mongodbIdPattern_blogId1 env_ok_answers(1) blogs_world0_absent]
  have a: "getById
        (\<lambda>r. case r of None \<Rightarrow> Inl (TypeError ''null'') | Some (i, d) \<Rightarrow> Inr (i, title d))
        env_ok blogId1 world0
       = (Uncaught (TypeError ''null''), world0\<lparr>calls := [DbFindOne blogId1]\<rparr>)"
    using run [of "\<lambda>r. case r of None \<Rightarrow> Inl (TypeError ''null'')
                          | Some (i, d) \<Rightarrow> Inr (i, title d)"]
    by (simp add: calls_world0)
  have b: "getById (\<lambda>r. Inr r) env_ok blogId1 world0
       = (Json 200 (BlogBody None), world0\<lparr>calls := [DbFindOne blogId1]\<rparr>)"
    using run [of "\<lambda>r. Inr r"]
    by (simp add: calls_world0)
  show ?thesis
    using mongodbIdPattern_blogId1 env_ok_answers(1) blogs_world0_absent a b
    by simp
qed

end
